theory Spec2Isabelle
  imports Complex_Main "HOL-Library.Sublist" "HOL-Library.Multiset"
begin

section \<open>Strings, numbers and errors\<close>

text \<open>
  Python strings are modelled as byte strings (\<open>string\<close>, UTF-8 encoded); a non-ASCII
  symbol of the source is the sequence of its bytes. Case mapping and the digit class are
  modelled on ASCII, which is all the patterns of the program use. Python floats are
  modelled as exact reals: rounding to the nearest double is outside the model.
\<close>

datatype py_error =
    ValueError
  | AttributeError
  | KeyError
  | FileNotFoundError
  | JSONDecodeError
  | UnicodeDecodeError
  | ValidationError
  | RequestValidationError
  | ClientError
  | TimeoutError
  | CancelledError
  | KeyboardInterrupt

text \<open>
  \<open>except Exception\<close> catches the classes that derive from \<open>Exception\<close>. A cancellation
  (\<open>asyncio.CancelledError\<close>) and a keyboard interrupt derive from \<open>BaseException\<close> only.
\<close>

definition is_Exception :: "py_error \<Rightarrow> bool" where
  "is_Exception e = (e \<noteq> CancelledError \<and> e \<noteq> KeyboardInterrupt)"

definition is_digit :: "char \<Rightarrow> bool" where
  "is_digit c = (c \<in> set ''0123456789'')"

definition digit_val :: "char \<Rightarrow> nat" where
  "digit_val c =
     (case map_of (zip ''0123456789'' [0, 1, 2, 3, 4, 5, 6, 7, 8, 9]) c of
        Some d \<Rightarrow> d | None \<Rightarrow> 0)"

definition digits_val :: "string \<Rightarrow> nat" where
  "digits_val ds = foldl (\<lambda>a c. 10 * a + digit_val c) 0 ds"

definition lower_char :: "char \<Rightarrow> char" where
  "lower_char c =
     (case map_of (zip ''ABCDEFGHIJKLMNOPQRSTUVWXYZ'' ''abcdefghijklmnopqrstuvwxyz'') c of
        Some d \<Rightarrow> d | None \<Rightarrow> c)"

definition lower :: "string \<Rightarrow> string" where
  "lower s = map lower_char s"

text \<open>The euro symbol, U+20AC, in UTF-8.\<close>

definition euro :: string where
  "euro = [CHR 0xE2, CHR 0x82, CHR 0xAC]"

text \<open>
  The literal that \<open>scraper.py\<close> writes where a euro symbol is meant: the file holds the
  three code points U+00E2, U+201A, U+00AC.
\<close>

definition euro_literal :: string where
  "euro_literal = [CHR 0xC3, CHR 0xA2, CHR 0xE2, CHR 0x80, CHR 0x9A, CHR 0xC2, CHR 0xAC]"

section \<open>The price parser\<close>

text \<open>
  \<open>float(s)\<close> on the strings that reach it in \<open>_parse_price\<close>: after the substitution
  only digits and periods are left. Such a string is a float literal when it has at least
  one digit and at most one period; anything else raises \<open>ValueError\<close>.
\<close>

definition py_float :: "string \<Rightarrow> py_error + real" where
  "py_float s =
     (let ip = takeWhile is_digit s; r = dropWhile is_digit s
      in case r of
           [] \<Rightarrow> if ip = [] then Inl ValueError else Inr (real (digits_val ip))
         | c # fp \<Rightarrow>
             if c = CHR ''.'' \<and> list_all is_digit fp \<and> (ip \<noteq> [] \<or> fp \<noteq> [])
             then Inr (real (digits_val (ip @ fp)) / 10 ^ length fp)
             else Inl ValueError)"

text \<open>\<open>re.sub(r'[^\d,.]', '', price_text.replace(',', '.'))\<close>\<close>

definition price_clean :: "string \<Rightarrow> string" where
  "price_clean price_text =
     filter (\<lambda>c. is_digit c \<or> c = CHR '','' \<or> c = CHR ''.'')
       (map (\<lambda>c. if c = CHR '','' then CHR ''.'' else c) price_text)"

text \<open>
  \<open>MaterialScraper._parse_price\<close>. The \<open>try\<close> block catches \<open>ValueError\<close> only; any other
  error would leave the function.
\<close>

definition parse_price :: "string \<Rightarrow> py_error + (real \<times> string)" where
  "parse_price price_text =
     (if price_text = [] then Inr (0, ''EUR'')
      else case py_float (price_clean price_text) of
             Inr price \<Rightarrow>
               Inr (price, if sublist euro_literal price_text then ''EUR'' else ''EUR'')
           | Inl ValueError \<Rightarrow> Inr (0, ''EUR'')
           | Inl e \<Rightarrow> Inl e)"

section \<open>Properties of the price parser\<close>

lemma digits_val_foldl:
  "foldl (\<lambda>a c. 10 * a + digit_val c) k ds =
     k * 10 ^ length ds + foldl (\<lambda>a c. 10 * a + digit_val c) 0 ds"
proof (induction ds arbitrary: k)
  case Nil
  show ?case by simp
next
  case (Cons d ds)
  have "foldl (\<lambda>a c. 10 * a + digit_val c) k (d # ds) =
          foldl (\<lambda>a c. 10 * a + digit_val c) (10 * k + digit_val d) ds"
    by simp
  also have "\<dots> = (10 * k + digit_val d) * 10 ^ length ds +
          foldl (\<lambda>a c. 10 * a + digit_val c) 0 ds"
    by (rule Cons.IH)
  also have "foldl (\<lambda>a c. 10 * a + digit_val c) 0 (d # ds) =
          digit_val d * 10 ^ length ds + foldl (\<lambda>a c. 10 * a + digit_val c) 0 ds"
    using Cons.IH [of "digit_val d"] by simp
  ultimately show ?case
    by (simp add: algebra_simps)
qed

lemma digits_val_append:
  "digits_val (xs @ ys) = digits_val xs * 10 ^ length ys + digits_val ys"
  unfolding digits_val_def foldl_append
  by (rule digits_val_foldl)

lemma py_float_error: "py_float s = Inl e \<Longrightarrow> e = ValueError"
  by (auto simp: py_float_def Let_def split: list.splits if_splits)

lemma py_float_no_digit:
  assumes "list_all (\<lambda>c. \<not> is_digit c) s"
  shows "py_float s = Inl ValueError"
proof (cases s)
  case Nil
  then show ?thesis by (simp add: py_float_def)
next
  case (Cons c cs)
  with assms have c: "\<not> is_digit c" and cs: "list_all (\<lambda>c. \<not> is_digit c) cs"
    by simp_all
  have "list_all is_digit cs \<Longrightarrow> cs = []"
    using cs by (cases cs) simp_all
  with Cons c show ?thesis
    by (auto simp: py_float_def)
qed

lemma py_float_decimal:
  assumes "ds1 \<noteq> []" "list_all is_digit ds1" "list_all is_digit ds2"
  shows "py_float (ds1 @ CHR ''.'' # ds2) =
           Inr (real (digits_val ds1) + real (digits_val ds2) / 10 ^ length ds2)"
proof -
  have nd: "\<not> is_digit CHR ''.''"
    by (simp add: is_digit_def)
  from assms(2) have all: "\<forall>c\<in>set ds1. is_digit c"
    by (simp add: list_all_iff)
  have tw: "takeWhile is_digit (ds1 @ CHR ''.'' # ds2) = ds1"
    using all nd by (simp add: takeWhile_append2)
  have dw: "dropWhile is_digit (ds1 @ CHR ''.'' # ds2) = CHR ''.'' # ds2"
    using all nd by (simp add: dropWhile_append2)
  have "real (digits_val (ds1 @ ds2)) / 10 ^ length ds2 =
          real (digits_val ds1) + real (digits_val ds2) / 10 ^ length ds2"
    by (simp add: digits_val_append add_divide_distrib)
  then show ?thesis
    using assms(1,3) by (simp add: py_float_def tw dw)
qed

lemma price_clean_append: "price_clean (xs @ ys) = price_clean xs @ price_clean ys"
  by (simp add: price_clean_def)

lemma price_clean_digits: "list_all is_digit ds \<Longrightarrow> price_clean ds = ds"
  by (induction ds) (auto simp: price_clean_def is_digit_def)

lemma price_clean_no_digit:
  "list_all (\<lambda>c. \<not> is_digit c) s \<Longrightarrow> list_all (\<lambda>c. \<not> is_digit c) (price_clean s)"
proof -
  have "\<not> is_digit CHR ''.''"
    by (simp add: is_digit_def)
  then show "list_all (\<lambda>c. \<not> is_digit c) s \<Longrightarrow> list_all (\<lambda>c. \<not> is_digit c) (price_clean s)"
    by (induction s) (auto simp: price_clean_def)
qed

lemma price_clean_euro: "price_clean euro = []" "price_clean (CHR '' '' # euro) = []"
  by (simp_all add: price_clean_def euro_def is_digit_def)

lemma parse_price_total: "\<exists>r. parse_price s = Inr r"
proof (cases "py_float (price_clean s)")
  case (Inl e)
  then have "e = ValueError" by (rule py_float_error)
  with Inl show ?thesis by (simp add: parse_price_def)
next
  case (Inr v)
  then show ?thesis by (simp add: parse_price_def)
qed

lemma parse_price_no_digit:
  assumes "list_all (\<lambda>c. \<not> is_digit c) s"
  shows "parse_price s = Inr (0, ''EUR'')"
proof -
  have "py_float (price_clean s) = Inl ValueError"
    using assms by (intro py_float_no_digit price_clean_no_digit)
  then show ?thesis by (simp add: parse_price_def)
qed

lemma parse_price_decimal:
  assumes "ds1 \<noteq> []" "list_all is_digit ds1" "ds2 \<noteq> []" "list_all is_digit ds2"
    and "sep = CHR '','' \<or> sep = CHR ''.''"
    and "sfx = [] \<or> sfx = euro \<or> sfx = CHR '' '' # euro"
  shows "parse_price (ds1 @ sep # ds2 @ sfx) =
           Inr (real (digits_val ds1) + real (digits_val ds2) / 10 ^ length ds2, ''EUR'')"
proof -
  have sep: "price_clean [sep] = ''.''"
    using assms(5) by (auto simp: price_clean_def)
  have sfx: "price_clean sfx = []"
    using assms(6) by (auto simp: price_clean_euro) (simp add: price_clean_def)
  have "price_clean (ds1 @ sep # ds2 @ sfx) =
          price_clean ds1 @ price_clean [sep] @ price_clean ds2 @ price_clean sfx"
    by (metis append_Cons append_Nil price_clean_append)
  also have "\<dots> = ds1 @ CHR ''.'' # ds2"
    using assms(2,4) by (simp add: sep sfx price_clean_digits)
  finally have "py_float (price_clean (ds1 @ sep # ds2 @ sfx)) =
      Inr (real (digits_val ds1) + real (digits_val ds2) / 10 ^ length ds2)"
    using assms(1,2,4) by (simp add: py_float_decimal)
  then show ?thesis
    using assms(1) by (simp add: parse_price_def)
qed

text \<open>
  Claim C2. A price string made of digits, a comma or a period, digits, and then nothing,
  a euro symbol, or a space and a euro symbol, parses to the decimal value it denotes
  (the comma read as the decimal separator) with currency EUR. An input without any digit,
  the empty string included, parses to \<open>(0, EUR)\<close>. The parser returns a value on every
  input: no error leaves it.
\<close>

theorem parse_price_spec:
  "(ds1 \<noteq> [] \<and> list_all is_digit ds1 \<and> ds2 \<noteq> [] \<and> list_all is_digit ds2 \<and>
    (sep = CHR '','' \<or> sep = CHR ''.'') \<and>
    (sfx = [] \<or> sfx = euro \<or> sfx = CHR '' '' # euro) \<longrightarrow>
      parse_price (ds1 @ sep # ds2 @ sfx) =
        Inr (real (digits_val ds1) + real (digits_val ds2) / 10 ^ length ds2, ''EUR''))
   \<and> (list_all (\<lambda>c. \<not> is_digit c) s \<longrightarrow> parse_price s = Inr (0, ''EUR''))
   \<and> (\<exists>r. parse_price s = Inr r)"
  using parse_price_decimal [of ds1 ds2 sep sfx] parse_price_no_digit [of s]
    parse_price_total [of s]
  by blast

theorem parse_price_spec_witness:
  "parse_price (''29,99 '' @ euro) = Inr (2999 / 100, ''EUR'')
   \<and> parse_price ''invalid'' = Inr (0, ''EUR'')"
  using parse_price_spec [of "''29''" "''99''" "CHR '',''" "CHR '' '' # euro" "''invalid''"]
  by (simp add: is_digit_def digits_val_def digit_val_def)

section \<open>HTML fragments\<close>

text \<open>
  The tree that \<open>BeautifulSoup(content, 'html.parser')\<close> builds, reduced to tags and plain
  text nodes. A tag carries its (lower-case) name, its attribute dictionary as an association
  list, and its children in document order.
\<close>

datatype node = Element string "(string \<times> string) list" "node list" | Text string

definition attr :: "node \<Rightarrow> string \<Rightarrow> string option" where
  "attr n k = (case n of Element _ as _ \<Rightarrow> map_of as k | Text _ \<Rightarrow> None)"

text \<open>The descendants of a tag in document order, each with its parent.\<close>

fun descendants_p :: "node \<Rightarrow> (node \<times> node) list" where
  "descendants_p (Text t) = []"
| "descendants_p (Element n as cs) =
     concat (map (\<lambda>c. (Element n as cs, c) # descendants_p c) cs)"

definition descendants :: "node \<Rightarrow> node list" where
  "descendants n = map snd (descendants_p n)"

definition is_tag :: "string list \<Rightarrow> node \<Rightarrow> bool" where
  "is_tag names n = (case n of Element t _ _ \<Rightarrow> t \<in> set names | Text _ \<Rightarrow> False)"

text \<open>
  \<open>class_=re.compile(r'p1|p2|...', re.I)\<close>: the tag has a class attribute in which one of
  the alternatives occurs, whatever the case.
\<close>

definition class_matches :: "string list \<Rightarrow> node \<Rightarrow> bool" where
  "class_matches pats n =
     (case attr n ''class'' of
        None \<Rightarrow> False
      | Some v \<Rightarrow> list_ex (\<lambda>p. sublist p (lower v)) pats)"

text \<open>\<open>attrs={key: True}\<close>, \<open>title=True\<close>, \<open>href=True\<close>: the attribute is present.\<close>

definition has_attr :: "string \<Rightarrow> node \<Rightarrow> bool" where
  "has_attr k n = (attr n k \<noteq> None)"

definition find_all :: "(node \<Rightarrow> bool) \<Rightarrow> node \<Rightarrow> node list" where
  "find_all P c = filter P (descendants c)"

text \<open>\<open>Tag.find\<close>: the first match among the descendants, or \<open>None\<close>.\<close>

definition soup_find :: "(node \<Rightarrow> bool) \<Rightarrow> node \<Rightarrow> node option" where
  "soup_find P c = List.find P (descendants c)"

text \<open>
  \<open>container.find(string=pattern)\<close> followed by \<open>.parent\<close>: the parent of the first text
  node whose text the pattern matches.
\<close>

definition find_string_parent :: "(string \<Rightarrow> bool) \<Rightarrow> node \<Rightarrow> node option" where
  "find_string_parent P c =
     map_option fst
       (List.find (\<lambda>(parent, n). case n of Text t \<Rightarrow> P t | Element _ _ _ \<Rightarrow> False)
          (descendants_p c))"

definition strings :: "node \<Rightarrow> string list" where
  "strings n =
     concat (map (\<lambda>d. case d of Text t \<Rightarrow> [t] | Element _ _ _ \<Rightarrow> []) (descendants n))"

definition is_space :: "char \<Rightarrow> bool" where
  "is_space c =
     (c \<in> set [CHR '' '', CHR 0x09, CHR 0x0A, CHR 0x0B, CHR 0x0C, CHR 0x0D,
                CHR 0x1C, CHR 0x1D, CHR 0x1E, CHR 0x1F])"

definition strip :: "string \<Rightarrow> string" where
  "strip s = rev (dropWhile is_space (rev (dropWhile is_space s)))"

definition get_text :: "node \<Rightarrow> string" where
  "get_text n = concat (strings n)"

text \<open>\<open>get_text(strip=True)\<close>: every string stripped, the empty ones dropped.\<close>

definition get_text_strip :: "node \<Rightarrow> string" where
  "get_text_strip n = concat (filter (\<lambda>s. s \<noteq> []) (map strip (strings n)))"

section \<open>Products and their extraction\<close>

record Product =
  name :: string
  category :: string
  price :: real
  currency :: string
  product_url :: string
  brand :: "string option"
  unit :: "string option"
  pack_size :: "string option"
  image_url :: "string option"
  in_stock :: bool
  supplier :: string
  scraped_at :: string

text \<open>\<open>Product.__post_init__\<close>, with the clock's reading \<open>now\<close>.\<close>

definition post_init :: "string \<Rightarrow> Product \<Rightarrow> Product" where
  "post_init now p = (if scraped_at p = [] then p\<lparr>scraped_at := now\<rparr> else p)"

text \<open>The unit tokens of \<open>_extract_unit\<close>, byte for byte as the source file has them.\<close>

definition units :: "string list" where
  "units =
     [[CHR ''m'', CHR 0xC3, CHR 0x82, CHR 0xC2, CHR 0xB2], ''m2'',
      [CHR ''c'', CHR ''m'', CHR 0xC3, CHR 0x82, CHR 0xC2, CHR 0xB2], ''cm2'',
      ''ml'', ''cl'', ''l'', ''kg'', ''g'',
      [CHR ''p'', CHR ''i'', CHR 0xC3, CHR 0x83, CHR 0xC2, CHR 0xA8, CHR ''c'', CHR ''e''],
      ''lot'', ''paquet'']"

definition extract_unit :: "string \<Rightarrow> string option" where
  "extract_unit text =
     (if text = [] then None
      else List.find (\<lambda>u. sublist (lower u) (lower text)) units)"

text \<open>
  What the scraper takes from outside: \<open>urllib.parse.urljoin\<close>, which may raise on a
  malformed URL; the clock's reading as \<open>datetime.now().isoformat()\<close> gives it; the network,
  which answers a request for a URL; and the HTML parser. The politeness delay before a
  request is real time and has no part in the model.
\<close>

datatype http_outcome =
    Get_raises py_error
  | Response int "py_error + string"

record world =
  urljoin :: "string \<Rightarrow> string \<Rightarrow> py_error + string"
  now :: string
  http_get :: "string \<Rightarrow> http_outcome"
  html_parser :: "string \<Rightarrow> node"

text \<open>The name candidate: lines 218 to 220 of \<open>scraper.py\<close>.\<close>

definition name_candidate :: "node \<Rightarrow> node option" where
  "name_candidate container =
     (case soup_find (\<lambda>n. is_tag [''h2'', ''h3'', ''a''] n \<and>
                          class_matches [''title'', ''name'', ''product''] n) container of
        Some e \<Rightarrow> Some e
      | None \<Rightarrow> soup_find (\<lambda>n. is_tag [''a''] n \<and> has_attr ''title'' n) container)"

definition name_of :: "node \<Rightarrow> string" where
  "name_of name_elem =
     (if get_text_strip name_elem \<noteq> [] then get_text_strip name_elem
      else case attr name_elem ''title'' of Some t \<Rightarrow> t | None \<Rightarrow> [])"

text \<open>The pattern of line 237: the text holds the currency literal or a digit.\<close>

definition price_pattern :: "string \<Rightarrow> bool" where
  "price_pattern t = (sublist euro_literal t \<or> list_ex is_digit t)"

definition price_candidate :: "node \<Rightarrow> node option" where
  "price_candidate container =
     (case soup_find (\<lambda>n. is_tag [''span'', ''div''] n \<and>
                          class_matches [''price'', ''prix''] n) container of
        Some e \<Rightarrow> Some e
      | None \<Rightarrow> find_string_parent price_pattern container)"

definition stock_candidate :: "node \<Rightarrow> node option" where
  "stock_candidate container =
     soup_find (\<lambda>n. is_tag [''span'', ''div''] n \<and>
                    class_matches [''stock'', ''disponib''] n) container"

text \<open>Lines 259 to 263.\<close>

definition stock_status :: "node \<Rightarrow> bool" where
  "stock_status container =
     (case stock_candidate container of
        None \<Rightarrow> True
      | Some stock_elem \<Rightarrow>
          (let stock_text = lower (get_text stock_elem)
           in sublist ''disponible'' stock_text \<or> sublist ''en stock'' stock_text))"

text \<open>
  Lines 248 to 253: \<open>Inl\<close> when \<open>urljoin\<close> raises, else the image URL or \<open>None\<close>.
\<close>

definition image_of :: "world \<Rightarrow> node \<Rightarrow> string \<Rightarrow> py_error + string option" where
  "image_of env container base_url =
     (case soup_find (is_tag [''img'']) container of
        None \<Rightarrow> Inr None
      | Some img_elem \<Rightarrow>
          (let img =
                 (case attr img_elem ''src'' of
                    None \<Rightarrow> attr img_elem ''data-src''
                  | Some s \<Rightarrow> if s \<noteq> [] then Some s else attr img_elem ''data-src'')
           in case img of
                None \<Rightarrow> Inr None
              | Some u \<Rightarrow>
                  if u \<noteq> [] \<and> \<not> prefix ''http'' u
                  then map_sum id Some (urljoin env base_url u)
                  else Inr (Some u)))"

text \<open>
  \<open>MaterialScraper._parse_leroymerlin_product\<close>. The result is an error only for what
  \<open>except Exception\<close> lets through; every other error becomes \<open>None\<close>.
\<close>

definition parse_product_body ::
  "world \<Rightarrow> node \<Rightarrow> string \<Rightarrow> string \<Rightarrow> py_error + Product option" where
  "parse_product_body env container cat base_url =
     (case name_candidate container of
        None \<Rightarrow> Inr None
      | Some name_elem \<Rightarrow>
          (let nm = name_of name_elem
           in case soup_find (\<lambda>n. is_tag [''a''] n \<and> has_attr ''href'' n) container of
                None \<Rightarrow> Inr None
              | Some url_elem \<Rightarrow>
                  (case attr url_elem ''href'' of
                     None \<Rightarrow> Inl KeyError
                   | Some href \<Rightarrow>
                  (case urljoin env base_url href of
                     Inl e \<Rightarrow> Inl e
                   | Inr url \<Rightarrow>
                  (case parse_price (case price_candidate container of
                                       Some price_elem \<Rightarrow> get_text price_elem
                                     | None \<Rightarrow> ''0'') of
                     Inl e \<Rightarrow> Inl e
                   | Inr (pr, cur) \<Rightarrow>
                  (let br = map_option get_text_strip
                                 (soup_find (\<lambda>n. is_tag [''span'', ''div''] n \<and>
                                    class_matches [''brand'', ''marque''] n) container)
                   in case image_of env container base_url of
                        Inl e \<Rightarrow> Inl e
                      | Inr img \<Rightarrow>
                          Inr (Some (post_init (now env)
                            \<lparr>name = nm, category = cat, price = pr,
                             currency = cur, product_url = url,
                             brand = br, unit = extract_unit nm, pack_size = None,
                             image_url = img, in_stock = stock_status container,
                             supplier = ''Leroy Merlin'', scraped_at = []\<rparr>))))))))"

definition parse_leroymerlin_product ::
  "world \<Rightarrow> node \<Rightarrow> string \<Rightarrow> string \<Rightarrow> py_error + Product option" where
  "parse_leroymerlin_product env container cat base_url =
     (case parse_product_body env container cat base_url of
        Inr r \<Rightarrow> Inr r
      | Inl e \<Rightarrow> if is_Exception e then Inr None else Inl e)"


section \<open>Fetching and the crawl of one category\<close>

text \<open>
  \<open>MaterialScraper._fetch_page\<close>. \<open>Get_raises e\<close> is a request that raises \<open>e\<close> (a transport
  error, a timeout); \<open>Response status body\<close> is an answer with its status, and what reading
  its body gives.
\<close>

definition fetch_page :: "(string \<Rightarrow> http_outcome) \<Rightarrow> string \<Rightarrow> py_error + string option" where
  "fetch_page get url =
     (case (case get url of
              Get_raises e \<Rightarrow> Inl e
            | Response status body \<Rightarrow>
                if status = 200 then map_sum id Some body else Inr None) of
        Inr r \<Rightarrow> Inr r
      | Inl e \<Rightarrow> if is_Exception e then Inr None else Inl e)"

text \<open>A success status in the words of the specification: 2xx.\<close>

definition http_success :: "int \<Rightarrow> bool" where
  "http_success status = (200 \<le> status \<and> status < 300)"

record scraper_config =
  base_url :: string
  max_products_per_category :: int

fun str_nat :: "nat \<Rightarrow> string" where
  "str_nat n =
     (if n < 10 then [''0123456789'' ! n]
      else str_nat (n div 10) @ [''0123456789'' ! (n mod 10)])"

declare str_nat.simps [simp del]

text \<open>Lines 185 to 189: the product containers of a page.\<close>

definition product_containers :: "node \<Rightarrow> node list" where
  "product_containers soup =
     (case find_all (\<lambda>n. is_tag [''div'', ''article''] n \<and>
                         class_matches [''product'', ''item'', ''card''] n) soup of
        [] \<Rightarrow> find_all (\<lambda>n. is_tag [''div''] n \<and> has_attr ''data-product-id'' n) soup
      | cs \<Rightarrow> cs)"

text \<open>The \<open>for\<close> loop of lines 196 to 200: the products of the containers it is given.\<close>

fun parse_containers :: "world \<Rightarrow> node list \<Rightarrow> string \<Rightarrow> string \<Rightarrow> py_error + Product list" where
  "parse_containers w [] cat b = Inr []"
| "parse_containers w (c # cs) cat b =
     (case parse_leroymerlin_product w c cat b of
        Inl e \<Rightarrow> Inl e
      | Inr r \<Rightarrow>
          (case parse_containers w cs cat b of
             Inl e \<Rightarrow> Inl e
           | Inr ps \<Rightarrow> Inr ((case r of None \<Rightarrow> [] | Some p \<Rightarrow> [p]) @ ps)))"

text \<open>
  One pass through the body of the \<open>while\<close> loop of \<open>_scrape_leroymerlin_category\<close>, lines 176
  to 203: the request for a page and the extraction of its products. \<open>Break\<close> is one of the
  three \<open>break\<close> statements; \<open>Page\<close> carries the products appended to the list, at least one.
\<close>

datatype page_outcome = Raise py_error | Break | Page "Product list"

definition scrape_page ::
  "world \<Rightarrow> scraper_config \<Rightarrow> string \<Rightarrow> string \<Rightarrow> Product list \<Rightarrow> page_outcome" where
  "scrape_page w cfg cat page_url products =
     (case fetch_page (http_get w) page_url of
        Inl e \<Rightarrow> Raise e
      | Inr None \<Rightarrow> Break
      | Inr (Some content) \<Rightarrow>
          if content = [] then Break
          else (case product_containers (html_parser w content) of
                  [] \<Rightarrow> Break
                | cs \<Rightarrow>
                    (case parse_containers w
                            (take (nat (max_products_per_category cfg - int (length products)))
                               cs)
                            cat (base_url cfg) of
                       Inl e \<Rightarrow> Raise e
                     | Inr page_products \<Rightarrow>
                         if page_products = [] then Break else Page page_products)))"

text \<open>
  The \<open>while\<close> loop, from the state at its head: the page number, the products so far, and
  the URLs requested so far. It returns the products (or the error that left the loop) and
  the URLs requested.
\<close>

function scrape_pages ::
  "world \<Rightarrow> scraper_config \<Rightarrow> string \<Rightarrow> string \<Rightarrow> nat \<Rightarrow> Product list \<Rightarrow> string list \<Rightarrow>
     (py_error + Product list) \<times> string list" where
  "scrape_pages w cfg cat full_url page products requests =
     (if int (length products) < max_products_per_category cfg then
        (let page_url = full_url @ ''?page='' @ str_nat page;
             requests' = requests @ [page_url]
         in case scrape_page w cfg cat page_url products of
              Raise e \<Rightarrow> (Inl e, requests')
            | Break \<Rightarrow> (Inr products, requests')
            | Page page_products \<Rightarrow>
                if page + 1 > 10 then (Inr (products @ page_products), requests')
                else scrape_pages w cfg cat full_url (page + 1)
                       (products @ page_products) requests')
      else (Inr products, requests))"
  by pat_completeness auto
termination
  by (relation "measure (\<lambda>(w, cfg, cat, full_url, page, products, requests). 11 - page)") auto

declare scrape_pages.simps [simp del]

definition scrape_leroymerlin_category ::
  "world \<Rightarrow> scraper_config \<Rightarrow> string \<Rightarrow> string \<Rightarrow> (py_error + Product list) \<times> string list" where
  "scrape_leroymerlin_category w cfg cat category_url =
     (case urljoin w (base_url cfg) category_url of
        Inl e \<Rightarrow> (Inl e, [])
      | Inr full_url \<Rightarrow> scrape_pages w cfg cat full_url 1 [] [])"


section \<open>Properties of the extraction\<close>

lemma parse_product_body_Some:
  assumes "parse_product_body w container cat b = Inr (Some p)"
  shows "\<exists>e. name_candidate container = Some e \<and> name p = name_of e \<and>
           in_stock p = stock_status container"
  using assms
  by (auto simp: parse_product_body_def post_init_def Let_def
           split: option.splits sum.splits prod.splits if_splits)

lemma parse_leroymerlin_product_Some:
  assumes "parse_leroymerlin_product w container cat b = Inr (Some p)"
  shows "parse_product_body w container cat b = Inr (Some p)"
  using assms
  by (auto simp: parse_leroymerlin_product_def split: sum.splits if_splits)


text \<open>
  Claim C5 as stated fails: a product card whose link wraps only an image has a name
  candidate (the link, whose class hints at product) with no text and no \<open>title\<close>
  attribute, and the record is constructed with the empty name.
\<close>

theorem empty_name_counterexample:
  "parse_leroymerlin_product
     \<lparr>urljoin = (\<lambda>b u. Inr (b @ u)), now = ''2024-01-01T00:00:00'',
      http_get = (\<lambda>u. Response 404 (Inr [])), html_parser = (\<lambda>s. Text s)\<rparr>
     (Element ''div'' [(''class'', ''product-card'')]
        [Element ''a'' [(''class'', ''product-link''), (''href'', ''/p/1'')]
           [Element ''img'' [(''src'', ''/i.jpg'')] []]])
     ''carrelage'' ''https://www.leroymerlin.fr'' =
   Inr (Some
     \<lparr>name = [], category = ''carrelage'', price = 0, currency = ''EUR'',
      product_url = ''https://www.leroymerlin.fr/p/1'', brand = None,
      unit = None, pack_size = None,
      image_url = Some ''https://www.leroymerlin.fr/i.jpg'',
      in_stock = True, supplier = ''Leroy Merlin'',
      scraped_at = ''2024-01-01T00:00:00''\<rparr>)"
  by code_simp

text \<open>
  Claim C5, as amended. When a fragment has no name candidate (no \<open>h2\<close>, \<open>h3\<close> or \<open>a\<close> whose
  class hints at title, name or product, and no anchor with a \<open>title\<close> attribute), extraction
  returns \<open>None\<close>. A record that is constructed has a name candidate \<open>e\<close> in its fragment, and
  its name is the stripped text of \<open>e\<close> or, when that is empty, the \<open>title\<close> attribute of \<open>e\<close>.
\<close>

theorem parse_product_name:
  "(name_candidate container = None \<longrightarrow>
      parse_leroymerlin_product w container cat b = Inr None)
   \<and> (parse_leroymerlin_product w container cat b = Inr (Some p) \<longrightarrow>
        (\<exists>e. name_candidate container = Some e \<and> name p = name_of e))"
proof (intro conjI impI)
  assume "name_candidate container = None"
  then show "parse_leroymerlin_product w container cat b = Inr None"
    by (simp add: parse_leroymerlin_product_def parse_product_body_def)
next
  assume "parse_leroymerlin_product w container cat b = Inr (Some p)"
  then have "parse_product_body w container cat b = Inr (Some p)"
    by (rule parse_leroymerlin_product_Some)
  then show "\<exists>e. name_candidate container = Some e \<and> name p = name_of e"
    using parse_product_body_Some by blast
qed

theorem parse_product_name_witness:
  "parse_leroymerlin_product
     \<lparr>urljoin = (\<lambda>b u. Inr (b @ u)), now = ''2024-01-01T00:00:00'',
      http_get = (\<lambda>u. Response 404 (Inr [])), html_parser = (\<lambda>s. Text s)\<rparr>
     (Element ''div'' [] [Element ''span'' [] [Text ''Incomplete tag'']])
     ''test_category'' ''https://test.com'' = Inr None
   \<and> name_candidate
         (Element ''div'' [(''data-product-id'', ''test1'')]
            [Element ''h2'' [(''class'', ''title'')] [Text ''Test Product''],
             Element ''a'' [(''href'', ''/p/1'')] []]) =
       Some (Element ''h2'' [(''class'', ''title'')] [Text ''Test Product''])
   \<and> name_of (Element ''h2'' [(''class'', ''title'')] [Text ''Test Product'']) =
       ''Test Product''"
proof -
  let ?w = "\<lparr>urljoin = (\<lambda>b u. Inr (b @ u)), now = ''2024-01-01T00:00:00'',
      http_get = (\<lambda>u. Response 404 (Inr [])), html_parser = (\<lambda>s. Text s)\<rparr>"
  let ?c1 = "Element ''div'' [] [Element ''span'' [] [Text ''Incomplete tag'']]"
  let ?h2 = "Element ''h2'' [(''class'', ''title'')] [Text ''Test Product'']"
  let ?c2 = "Element ''div'' [(''data-product-id'', ''test1'')]
            [?h2, Element ''a'' [(''href'', ''/p/1'')] []]"
  let ?p = "\<lparr>name = ''Test Product'', category = ''test'', price = 0, currency = ''EUR'',
      product_url = ''https://test.com/p/1'', brand = None,
      unit = None, pack_size = None, image_url = None,
      in_stock = True, supplier = ''Leroy Merlin'',
      scraped_at = ''2024-01-01T00:00:00''\<rparr>"
  have none: "name_candidate ?c1 = None"
    by code_simp
  have some: "parse_leroymerlin_product ?w ?c2 ''test'' ''https://test.com'' = Inr (Some ?p)"
    by code_simp
  have cand: "name_candidate ?c2 = Some ?h2"
    by code_simp
  have nm: "name_of ?h2 = ''Test Product''"
    by code_simp
  from parse_product_name [of ?c1 ?w "''test_category''" "''https://test.com''"] none
  have "parse_leroymerlin_product ?w ?c1 ''test_category'' ''https://test.com'' = Inr None"
    by blast
  moreover from parse_product_name [of ?c2 ?w "''test''" "''https://test.com''" ?p] some
  have "\<exists>e. name_candidate ?c2 = Some e \<and> name ?p = name_of e"
    by blast
  ultimately show ?thesis
    using cand nm by simp
qed



section \<open>Properties of fetching and of the crawl\<close>

text \<open>
  Claim C4 as stated fails: the body is returned for status 200 only, so an answer with
  another success status, here 203 with a body, gives \<open>None\<close>.
\<close>

theorem fetch_page_2xx_counterexample:
  "http_success 203
   \<and> fetch_page (\<lambda>u. Response 203 (Inr ''<html>Test content</html>''))
         ''https://www.leroymerlin.fr/wc?page=1'' = Inr None"
  by (simp add: http_success_def fetch_page_def)

text \<open>
  Claim C4, as amended. For every URL, fetch returns the page body exactly when the answer
  has status 200 and its body can be read. It returns \<open>None\<close>, and raises nothing, for every
  other status and for every request or body read that raises an error derived from
  \<open>Exception\<close> (a transport error, a timeout). An error that leaves the function is not
  derived from \<open>Exception\<close>.
\<close>

theorem fetch_page_spec:
  "(fetch_page get url = Inr (Some content) \<longleftrightarrow> get url = Response 200 (Inr content))
   \<and> (get url = Response status body \<and> status \<noteq> 200 \<longrightarrow> fetch_page get url = Inr None)
   \<and> (get url = Get_raises e \<and> is_Exception e \<longrightarrow> fetch_page get url = Inr None)
   \<and> (get url = Response 200 (Inl e) \<and> is_Exception e \<longrightarrow> fetch_page get url = Inr None)
   \<and> (fetch_page get url = Inl e \<longrightarrow> \<not> is_Exception e)"
  by (cases "get url")
     (auto simp: fetch_page_def map_sum_def split: sum.splits if_splits)

theorem fetch_page_spec_witness:
  "fetch_page (\<lambda>u. Response 200 (Inr ''<html>Test content</html>'')) ''https://test.com'' =
     Inr (Some ''<html>Test content</html>'')
   \<and> fetch_page (\<lambda>u. Response 404 (Inr [])) ''https://test.com'' = Inr None
   \<and> fetch_page (\<lambda>u. Get_raises TimeoutError) ''https://test.com'' = Inr None
   \<and> fetch_page (\<lambda>u. Response 200 (Inl UnicodeDecodeError)) ''https://test.com'' = Inr None
   \<and> fetch_page (\<lambda>u. Get_raises CancelledError) ''https://test.com'' = Inl CancelledError
   \<and> \<not> is_Exception CancelledError"
proof -
  have ok: "fetch_page (\<lambda>u. Response 200 (Inr ''<html>Test content</html>''))
              ''https://test.com'' = Inr (Some ''<html>Test content</html>'')"
    using fetch_page_spec [of "\<lambda>u. Response 200 (Inr ''<html>Test content</html>'')"
        "''https://test.com''" "''<html>Test content</html>''"]
    by simp
  have nf: "fetch_page (\<lambda>u. Response 404 (Inr [])) ''https://test.com'' = Inr None"
    using fetch_page_spec [of "\<lambda>u. Response 404 (Inr [])" "''https://test.com''" _ 404 "Inr []"]
    by simp
  have to: "fetch_page (\<lambda>u. Get_raises TimeoutError) ''https://test.com'' = Inr None"
    using fetch_page_spec [of "\<lambda>u. Get_raises TimeoutError" "''https://test.com''" _ _ _
        TimeoutError]
    by (simp add: is_Exception_def)
  have ud: "fetch_page (\<lambda>u. Response 200 (Inl UnicodeDecodeError)) ''https://test.com'' =
              Inr None"
    using fetch_page_spec [of "\<lambda>u. Response 200 (Inl UnicodeDecodeError)" "''https://test.com''"
        _ _ _ UnicodeDecodeError]
    by (simp add: is_Exception_def)
  have ca: "fetch_page (\<lambda>u. Get_raises CancelledError) ''https://test.com'' =
              Inl CancelledError"
    by (simp add: fetch_page_def is_Exception_def)
  have "\<not> is_Exception CancelledError"
    using fetch_page_spec [of "\<lambda>u. Get_raises CancelledError" "''https://test.com''" _ _ _
        CancelledError] ca
    by blast
  with ok nf to ud ca show ?thesis
    by blast
qed

lemma parse_containers_length:
  "parse_containers w cs cat b = Inr ps \<Longrightarrow> length ps \<le> length cs"
proof (induction cs arbitrary: ps)
  case Nil
  then show ?case by simp
next
  case (Cons c cs)
  from Cons.prems obtain r qs where
    r: "parse_leroymerlin_product w c cat b = Inr r" and
    qs: "parse_containers w cs cat b = Inr qs" and
    ps: "ps = (case r of None \<Rightarrow> [] | Some p \<Rightarrow> [p]) @ qs"
    by (auto split: sum.splits)
  from Cons.IH [OF qs] have "length qs \<le> length cs" .
  with ps show ?case
    by (cases r) simp_all
qed

lemma scrape_page_Page:
  assumes "scrape_page w cfg cat page_url products = Page pp"
  shows "int (length products) + int (length pp) \<le>
           max (int (length products)) (max_products_per_category cfg)"
proof -
  from assms obtain cs where
    "parse_containers w
       (take (nat (max_products_per_category cfg - int (length products))) cs)
       cat (base_url cfg) = Inr pp"
    by (auto simp: scrape_page_def split: sum.splits option.splits list.splits if_splits)
  then have "length pp \<le> nat (max_products_per_category cfg - int (length products))"
    using parse_containers_length by fastforce
  then show ?thesis by linarith
qed

lemma scrape_pages_requests:
  "page \<le> 10 \<Longrightarrow>
     length (snd (scrape_pages w cfg cat full_url page products requests)) \<le>
       length requests + (11 - page)"
proof (induction w cfg cat full_url page products requests rule: scrape_pages.induct)
  case (1 w cfg cat full_url page products requests)
  let ?url = "full_url @ ''?page='' @ str_nat page"
  show ?case
  proof (cases "int (length products) < max_products_per_category cfg")
    case False
    then show ?thesis
      by (subst scrape_pages.simps) simp
  next
    case True
    show ?thesis
    proof (cases "scrape_page w cfg cat ?url products")
      case (Raise e)
      with True "1.prems" show ?thesis
        by (subst scrape_pages.simps) simp
    next
      case Break
      with True "1.prems" show ?thesis
        by (subst scrape_pages.simps) simp
    next
      case (Page pp)
      show ?thesis
      proof (cases "page + 1 > 10")
        case True
        with \<open>int (length products) < max_products_per_category cfg\<close> Page "1.prems"
        show ?thesis
          by (subst scrape_pages.simps) simp
      next
        case False
        then have le: "page + 1 \<le> 10" by simp
        have "length (snd (scrape_pages w cfg cat full_url (page + 1) (products @ pp)
                (requests @ [?url]))) \<le> length (requests @ [?url]) + (11 - (page + 1))"
          using "1.IH" [OF True refl refl Page False le] .
        with True Page False show ?thesis
          by (subst scrape_pages.simps) simp
      qed
    qed
  qed
qed

lemma scrape_pages_products:
  "fst (scrape_pages w cfg cat full_url page products requests) = Inr ps \<Longrightarrow>
     int (length ps) \<le> max (int (length products)) (max_products_per_category cfg)"
proof (induction w cfg cat full_url page products requests arbitrary: ps
       rule: scrape_pages.induct)
  case (1 w cfg cat full_url page products requests)
  let ?url = "full_url @ ''?page='' @ str_nat page"
  show ?case
  proof (cases "int (length products) < max_products_per_category cfg")
    case False
    with "1.prems" have "ps = products"
      by (subst (asm) scrape_pages.simps) simp
    then show ?thesis by simp
  next
    case True
    show ?thesis
    proof (cases "scrape_page w cfg cat ?url products")
      case (Raise e)
      with True "1.prems" show ?thesis
        by (subst (asm) scrape_pages.simps) simp
    next
      case Break
      with True "1.prems" have "ps = products"
        by (subst (asm) scrape_pages.simps) simp
      then show ?thesis by simp
    next
      case (Page pp)
      note bound = scrape_page_Page [OF Page]
      show ?thesis
      proof (cases "page + 1 > 10")
        case True
        with \<open>int (length products) < max_products_per_category cfg\<close> Page "1.prems"
        have "ps = products @ pp"
          by (subst (asm) scrape_pages.simps) simp
        with bound show ?thesis by simp
      next
        case False
        with True Page "1.prems"
        have "fst (scrape_pages w cfg cat full_url (page + 1) (products @ pp)
                (requests @ [?url])) = Inr ps"
          by (subst (asm) scrape_pages.simps) simp
        from "1.IH" [OF True refl refl Page False this]
        have "int (length ps) \<le>
                max (int (length (products @ pp))) (max_products_per_category cfg)" .
        with bound show ?thesis by simp
      qed
    qed
  qed
qed

text \<open>
  Claim C8. Whatever the network answers and whatever the pages hold, the crawl of one
  category returns (the loop is a total function: its page number grows with every pass and
  the loop is left once it passes 10), it requests at most 10 pages, a bound that no
  configuration value enters, and the list it returns holds no more products than the
  configured cap \<open>max_products_per_category\<close> (none when the cap is not positive).
\<close>

theorem crawl_bounded:
  "length (snd (scrape_leroymerlin_category w cfg cat category_url)) \<le> 10
   \<and> (fst (scrape_leroymerlin_category w cfg cat category_url) = Inr ps \<longrightarrow>
        int (length ps) \<le> max 0 (max_products_per_category cfg))"
proof (cases "urljoin w (base_url cfg) category_url")
  case (Inl e)
  then show ?thesis
    by (simp add: scrape_leroymerlin_category_def)
next
  case (Inr full_url)
  have "length (snd (scrape_pages w cfg cat full_url 1 [] [])) \<le> length ([]::string list) + (11 - 1)"
    by (rule scrape_pages_requests) simp
  moreover have "fst (scrape_pages w cfg cat full_url 1 [] []) = Inr ps \<Longrightarrow>
      int (length ps) \<le> max 0 (max_products_per_category cfg)"
    using scrape_pages_products [of w cfg cat full_url 1 "[]" "[]" ps] by simp
  ultimately show ?thesis
    using Inr by (simp add: scrape_leroymerlin_category_def)
qed

text \<open>
  A site that answers every request with a page holding one product not seen before, and a
  configuration with a cap of 50.
\<close>

definition always_fresh :: world where
  "always_fresh =
     \<lparr>urljoin = (\<lambda>b u. Inr (b @ u)), now = ''2024-01-01T00:00:00'',
      http_get = (\<lambda>u. Response 200 (Inr u)),
      html_parser = (\<lambda>s. Element ''[document]'' []
        [Element ''div'' [(''data-product-id'', s)]
           [Element ''a'' [(''title'', s), (''href'', s)] []]])\<rparr>"

definition cap_50 :: scraper_config where
  "cap_50 = \<lparr>base_url = ''https://www.leroymerlin.fr'', max_products_per_category = 50\<rparr>"

theorem crawl_bounded_witness:
  "length (snd (scrape_leroymerlin_category always_fresh cap_50 ''wc'' ''/wc'')) \<le> 10
   \<and> fst (scrape_leroymerlin_category always_fresh cap_50 ''wc'' ''/wc'') =
       Inr (projr (fst (scrape_leroymerlin_category always_fresh cap_50 ''wc'' ''/wc'')))
   \<and> int (length (projr (fst (scrape_leroymerlin_category always_fresh cap_50 ''wc'' ''/wc''))))
       \<le> 50
   \<and> length (projr (fst (scrape_leroymerlin_category always_fresh cap_50 ''wc'' ''/wc''))) = 10
   \<and> last (snd (scrape_leroymerlin_category always_fresh cap_50 ''wc'' ''/wc'')) =
       ''https://www.leroymerlin.fr/wc?page=10''"
proof -
  let ?r = "scrape_leroymerlin_category always_fresh cap_50 ''wc'' ''/wc''"
  have ok: "fst ?r = Inr (projr (fst ?r))"
    by code_simp
  have n: "length (projr (fst ?r)) = 10"
    by code_simp
  have l: "last (snd ?r) = ''https://www.leroymerlin.fr/wc?page=10''"
    by code_simp
  have c: "max_products_per_category cap_50 = 50"
    by (simp add: cap_50_def)
  from crawl_bounded [of always_fresh cap_50 "''wc''" "''/wc''" "projr (fst ?r)"] ok
  have "length (snd ?r) \<le> 10 \<and> int (length (projr (fst ?r))) \<le> 50"
    by (simp add: c)
  with ok n l show ?thesis
    by blast
qed

section \<open>The snapshot\<close>

text \<open>
  A product object of the snapshot, as \<open>json.load\<close> returns it: a dictionary whose keys may
  be missing (\<open>None\<close> is a missing key; for the four optional fields also \<open>null\<close>). The
  values have the types that \<open>save_data\<close> writes.
\<close>

record product_json =
  name :: "string option"
  category :: "string option"
  price :: "real option"
  currency :: "string option"
  product_url :: "string option"
  brand :: "string option"
  unit :: "string option"
  pack_size :: "string option"
  image_url :: "string option"
  in_stock :: "bool option"
  supplier :: "string option"
  scraped_at :: "string option"

text \<open>The snapshot document: the dictionary that the server keeps in \<open>self.data\<close>.\<close>

record snapshot =
  products :: "product_json list option"
  total_products :: "int option"
  scraped_at :: "string option"

text \<open>\<open>d.get(key, default)\<close>\<close>

definition get_or :: "'a option \<Rightarrow> 'a \<Rightarrow> 'a" where
  "get_or v d = (case v of Some x \<Rightarrow> x | None \<Rightarrow> d)"








section \<open>The materials endpoint\<close>

text \<open>
  \<open>ProductResponse(**p)\<close>: the six fields without a default are required. The response
  model has the fields of \<open>Product\<close>, so the record type is shared.
\<close>

definition ProductResponse :: "product_json \<Rightarrow> py_error + Product" where
  "ProductResponse p =
     (case (product_json.name p, product_json.category p, product_json.price p,
            product_json.product_url p, product_json.supplier p, product_json.scraped_at p) of
        (Some n, Some c, Some x, Some u, Some s, Some t) \<Rightarrow>
          Inr \<lparr>Product.name = n, category = c, price = x,
               currency = get_or (product_json.currency p) ''EUR'', product_url = u,
               brand = product_json.brand p, unit = product_json.unit p,
               pack_size = product_json.pack_size p, image_url = product_json.image_url p,
               in_stock = get_or (product_json.in_stock p) True, supplier = s,
               scraped_at = t\<rparr>
      | _ \<Rightarrow> Inl ValidationError)"

text \<open>The list comprehension of line 186: the first record that fails validation raises.\<close>

fun responses :: "product_json list \<Rightarrow> py_error + Product list" where
  "responses [] = Inr []"
| "responses (p # ps) =
     (case ProductResponse p of
        Inl e \<Rightarrow> Inl e
      | Inr r \<Rightarrow> (case responses ps of Inl e \<Rightarrow> Inl e | Inr rs \<Rightarrow> Inr (r # rs)))"

text \<open>The optional filters of a request; \<open>None\<close> is a parameter that was not given.\<close>

record filters =
  category :: "string option"
  supplier :: "string option"
  min_price :: "real option"
  max_price :: "real option"
  brand :: "string option"
  in_stock :: "bool option"
  search :: "string option"

record MaterialsResponse =
  total :: int
  page :: int
  per_page :: int
  total_pages :: int
  products :: "Product list"
  filters_applied :: filters

text \<open>
  \<open>if value: products = [p for p in products if ...]\<close> for an optional string: \<open>None\<close> and
  the empty string are false, and leave the list as it is.
\<close>

definition if_given ::
  "string option \<Rightarrow> (string \<Rightarrow> product_json \<Rightarrow> bool) \<Rightarrow> product_json list \<Rightarrow> product_json list" where
  "if_given arg P ps =
     (case arg of None \<Rightarrow> ps | Some v \<Rightarrow> if v = [] then ps else filter (P v) ps)"

text \<open>\<open>if value is not None: products = [p for p in products if ...]\<close>\<close>

definition if_not_None ::
  "'a option \<Rightarrow> ('a \<Rightarrow> product_json \<Rightarrow> bool) \<Rightarrow> product_json list \<Rightarrow> product_json list" where
  "if_not_None arg P ps = (case arg of None \<Rightarrow> ps | Some v \<Rightarrow> filter (P v) ps)"

text \<open>The entry of \<open>filters_applied\<close> for an optional string.\<close>

definition applied_str :: "string option \<Rightarrow> string option" where
  "applied_str arg = (case arg of None \<Rightarrow> None | Some v \<Rightarrow> if v = [] then None else Some v)"

text \<open>The constraints of the \<open>Query\<close> declarations, which the framework checks first.\<close>

definition valid_query :: "int \<Rightarrow> int \<Rightarrow> filters \<Rightarrow> bool" where
  "valid_query pg sz f =
     (1 \<le> pg \<and> 1 \<le> sz \<and> sz \<le> 100 \<and>
      (case min_price f of None \<Rightarrow> True | Some m \<Rightarrow> 0 \<le> m) \<and>
      (case max_price f of None \<Rightarrow> True | Some m \<Rightarrow> 0 \<le> m))"

text \<open>Lines 140 to 172: the filters, applied one after the other.\<close>

definition filtered :: "snapshot \<Rightarrow> filters \<Rightarrow> product_json list" where
  "filtered data f =
     (let ps0 = get_or (snapshot.products data) [];
          ps1 = if_given (filters.category f)
                  (\<lambda>c p. lower (get_or (product_json.category p) []) = lower c) ps0;
          ps2 = if_given (filters.supplier f)
                  (\<lambda>s p. sublist (lower s) (lower (get_or (product_json.supplier p) []))) ps1;
          ps3 = if_not_None (min_price f)
                  (\<lambda>m p. get_or (product_json.price p) 0 \<ge> m) ps2;
          ps4 = if_not_None (max_price f)
                  (\<lambda>m p. get_or (product_json.price p) 0 \<le> m) ps3;
          ps5 = if_given (filters.brand f)
                  (\<lambda>b p. sublist (lower b) (lower (get_or (product_json.brand p) []))) ps4;
          ps6 = if_not_None (filters.in_stock f)
                  (\<lambda>b p. get_or (product_json.in_stock p) True = b) ps5;
          ps7 = if_given (search f)
                  (\<lambda>s p. sublist (lower s) (lower (get_or (product_json.name p) []))) ps6
      in ps7)"

definition applied :: "filters \<Rightarrow> filters" where
  "applied f =
     \<lparr>category = applied_str (filters.category f),
      supplier = applied_str (filters.supplier f),
      min_price = min_price f,
      max_price = max_price f,
      brand = applied_str (filters.brand f),
      in_stock = filters.in_stock f,
      search = applied_str (search f)\<rparr>"

text \<open>\<open>get_materials\<close>, the handler of \<open>GET /materials\<close>.\<close>

definition get_materials ::
  "snapshot \<Rightarrow> int \<Rightarrow> int \<Rightarrow> filters \<Rightarrow> py_error + MaterialsResponse" where
  "get_materials data pg sz f =
     (if \<not> valid_query pg sz f then Inl RequestValidationError
      else
        (let ps = filtered data f;
             n = int (length ps);
             pages = (n + sz - 1) div sz;
             start = (pg - 1) * sz;
             stop = start + sz;
             paginated_products = drop (nat start) (take (nat stop) ps)
         in case responses paginated_products of
              Inl e \<Rightarrow> Inl e
            | Inr rs \<Rightarrow>
                Inr \<lparr>total = n, page = pg, per_page = sz, total_pages = pages,
                     products = rs, filters_applied = applied f\<rparr>))"

text \<open>
  The filters in the words of the specification. A string filter is supplied when it is
  given and not empty, another filter when it is given; a record satisfies the supplied
  filters when it satisfies each of them; the filtered sequence holds the records of the
  snapshot that do, in the snapshot's order.
\<close>

definition if_supplied :: "string option \<Rightarrow> (string \<Rightarrow> bool) \<Rightarrow> bool" where
  "if_supplied arg P = (case arg of None \<Rightarrow> True | Some v \<Rightarrow> v = [] \<or> P v)"

definition if_present :: "'a option \<Rightarrow> ('a \<Rightarrow> bool) \<Rightarrow> bool" where
  "if_present arg P = (case arg of None \<Rightarrow> True | Some v \<Rightarrow> P v)"

definition satisfies :: "filters \<Rightarrow> product_json \<Rightarrow> bool" where
  "satisfies f p =
     (if_supplied (filters.category f)
        (\<lambda>c. lower (get_or (product_json.category p) []) = lower c) \<and>
      if_supplied (filters.supplier f)
        (\<lambda>s. sublist (lower s) (lower (get_or (product_json.supplier p) []))) \<and>
      if_present (min_price f) (\<lambda>m. m \<le> get_or (product_json.price p) 0) \<and>
      if_present (max_price f) (\<lambda>m. get_or (product_json.price p) 0 \<le> m) \<and>
      if_supplied (filters.brand f)
        (\<lambda>b. sublist (lower b) (lower (get_or (product_json.brand p) []))) \<and>
      if_present (filters.in_stock f) (\<lambda>b. get_or (product_json.in_stock p) True = b) \<and>
      if_supplied (search f)
        (\<lambda>s. sublist (lower s) (lower (get_or (product_json.name p) []))))"

definition matching :: "snapshot \<Rightarrow> filters \<Rightarrow> product_json list" where
  "matching data f = filter (satisfies f) (get_or (snapshot.products data) [])"


definition no_filters :: filters where
  "no_filters =
     \<lparr>category = None, supplier = None, min_price = None, max_price = None,
      brand = None, in_stock = None, search = None\<rparr>"

text \<open>A complete record, and a catalog of 45 such records.\<close>

definition tile :: product_json where
  "tile =
     \<lparr>product_json.name = Some ''Carrelage Test'', product_json.category = Some ''carrelage'', product_json.price = Some (2999 / 100),
      product_json.currency = Some ''EUR'', product_json.product_url = Some ''https://example.com/product/1'',
      product_json.brand = None, product_json.unit = None, product_json.pack_size = None, product_json.image_url = None, product_json.in_stock = Some True,
      product_json.supplier = Some ''Leroy Merlin'', product_json.scraped_at = Some ''2024-01-01T00:00:00''\<rparr>"

definition catalog_45 :: snapshot where
  "catalog_45 =
     \<lparr>snapshot.products = Some (replicate 45 tile), snapshot.total_products = Some 45,
      snapshot.scraped_at = Some ''2024-01-01T00:00:00''\<rparr>"

section \<open>Properties of the materials endpoint\<close>

lemma if_given_filter: "if_given a P ps = filter (\<lambda>p. if_supplied a (\<lambda>v. P v p)) ps"
  by (cases a) (auto simp: if_given_def if_supplied_def)

lemma if_not_None_filter: "if_not_None a P ps = filter (\<lambda>p. if_present a (\<lambda>v. P v p)) ps"
  by (cases a) (auto simp: if_not_None_def if_present_def)

lemma filtered_matching: "filtered data f = matching data f"
  unfolding filtered_def matching_def Let_def if_given_filter if_not_None_filter filter_filter
  by (rule filter_cong [OF refl]) (auto simp: satisfies_def)

lemma ceiling_pages:
  fixes n sz :: int
  assumes "0 < sz"
  shows "(n + sz - 1) div sz = \<lceil>real_of_int n / real_of_int sz\<rceil>"
proof -
  define q where "q = (n + sz - 1) div sz"
  define r where "r = (n + sz - 1) mod sz"
  have eq: "n + sz - 1 = sz * q + r"
    by (simp add: q_def r_def)
  have r: "0 \<le> r" "r < sz"
    using assms by (simp_all add: r_def)
  have lo: "(q - 1) * sz < n"
    using eq r by (simp add: algebra_simps)
  have hi: "n \<le> q * sz"
    using eq r by (simp add: algebra_simps)
  have "real_of_int (q - 1) * real_of_int sz < real_of_int n"
    using lo by (metis of_int_less_iff of_int_mult)
  then have 1: "real_of_int q - 1 < real_of_int n / real_of_int sz"
    using assms by (simp add: pos_less_divide_eq)
  have "real_of_int n \<le> real_of_int q * real_of_int sz"
    using hi by (metis of_int_le_iff of_int_mult)
  then have 2: "real_of_int n / real_of_int sz \<le> real_of_int q"
    using assms by (simp add: pos_divide_le_eq)
  from 1 2 have "\<lceil>real_of_int n / real_of_int sz\<rceil> = q"
    by (rule ceiling_unique)
  then show ?thesis
    by (simp add: q_def)
qed

lemma slice_nth: "drop i (take (i + k) xs) = map ((!) xs) [i ..< min (i + k) (length xs)]"
  by (rule nth_equalityI) (auto simp: less_diff_conv)




text \<open>The indices of a page: from \<open>(pg - 1) * sz\<close> to \<open>pg * sz\<close>, within a list of \<open>n\<close> records.\<close>

definition page_indices :: "int \<Rightarrow> int \<Rightarrow> nat \<Rightarrow> nat list" where
  "page_indices pg sz n = [nat ((pg - 1) * sz) ..< min (nat (pg * sz)) n]"

lemma page_slice:
  assumes "1 \<le> pg" "1 \<le> sz"
  shows "drop (nat ((pg - 1) * sz)) (take (nat ((pg - 1) * sz + sz)) xs) =
           map ((!) xs) (page_indices pg sz (length xs))"
proof -
  have nn: "0 \<le> (pg - 1) * sz"
    using assms by simp
  have "nat ((pg - 1) * sz + sz) = nat ((pg - 1) * sz) + nat sz"
    using assms nn by (simp add: nat_add_distrib)
  moreover have "nat (pg * sz) = nat ((pg - 1) * sz) + nat sz"
    using assms nn by (simp add: nat_add_distrib [symmetric] algebra_simps)
  ultimately show ?thesis
    by (simp add: page_indices_def slice_nth)
qed

lemma get_materials_valid:
  assumes "valid_query pg sz f"
  shows "get_materials data pg sz f =
           (case responses (map ((!) (matching data f))
                              (page_indices pg sz (length (matching data f)))) of
              Inl e \<Rightarrow> Inl e
            | Inr rs \<Rightarrow>
                Inr \<lparr>total = int (length (matching data f)), page = pg, per_page = sz,
                     total_pages =
                       \<lceil>real (length (matching data f)) / real_of_int sz\<rceil>,
                     products = rs, filters_applied = applied f\<rparr>)"
proof -
  from assms have pg: "1 \<le> pg" and sz: "1 \<le> sz"
    by (simp_all add: valid_query_def)
  from sz have "(int (length (matching data f)) + sz - 1) div sz =
      \<lceil>real (length (matching data f)) / real_of_int sz\<rceil>"
    using ceiling_pages [of sz "int (length (matching data f))"] by simp
  then show ?thesis
    using assms
    by (simp add: get_materials_def Let_def filtered_matching page_slice [OF pg sz]
             split: sum.splits)
qed





lemma matching_catalog_45: "matching catalog_45 no_filters = replicate 45 tile"
  by (simp add: matching_def catalog_45_def satisfies_def no_filters_def if_supplied_def
      if_present_def get_or_def)


text \<open>
  Claim C10. For every set of filters, every admitted page size \<open>sz\<close> and every page number
  \<open>pg \<ge> 1\<close> with \<open>(pg - 1) * sz\<close> at least the number of filtered records, whatever the
  records of the snapshot are, \<open>get_materials\<close> raises nothing: it answers with an empty list
  of products, and with \<open>total\<close> and \<open>total_pages\<close> computed over all filtered records.
\<close>

theorem get_materials_beyond_last_page:
  "valid_query pg sz f \<and> int (length (matching data f)) \<le> (pg - 1) * sz \<longrightarrow>
     get_materials data pg sz f =
       Inr \<lparr>total = int (length (matching data f)), page = pg, per_page = sz,
            total_pages = \<lceil>real (length (matching data f)) / real_of_int sz\<rceil>,
            products = [], filters_applied = applied f\<rparr>"
proof
  assume h: "valid_query pg sz f \<and> int (length (matching data f)) \<le> (pg - 1) * sz"
  then have "length (matching data f) \<le> nat ((pg - 1) * sz)"
    by linarith
  then have "page_indices pg sz (length (matching data f)) = []"
    by (simp add: page_indices_def)
  with h show "get_materials data pg sz f =
       Inr \<lparr>total = int (length (matching data f)), page = pg, per_page = sz,
            total_pages = \<lceil>real (length (matching data f)) / real_of_int sz\<rceil>,
            products = [], filters_applied = applied f\<rparr>"
    by (simp add: get_materials_valid)
qed

theorem get_materials_beyond_last_page_witness:
  "get_materials catalog_45 4 20 no_filters =
     Inr \<lparr>total = 45, page = 4, per_page = 20, total_pages = 3, products = [],
          filters_applied = no_filters\<rparr>
   \<and> get_materials catalog_45 1 20 (no_filters\<lparr>filters.category := Some ''wc''\<rparr>) =
     Inr \<lparr>total = 0, page = 1, per_page = 20, total_pages = 0, products = [],
          filters_applied = no_filters\<lparr>filters.category := Some ''wc''\<rparr>\<rparr>"
proof -
  let ?wc = "no_filters\<lparr>filters.category := Some ''wc''\<rparr>"
  have v: "valid_query 4 20 no_filters" "valid_query 1 20 ?wc"
    by (simp_all add: valid_query_def no_filters_def)
  have ce: "\<lceil>(45::real) / 20\<rceil> = 3"
    by linarith
  have a: "applied no_filters = no_filters" "applied ?wc = ?wc"
    by (simp_all add: applied_def applied_str_def no_filters_def)
  have m: "matching catalog_45 ?wc = []"
    by (simp add: matching_def catalog_45_def satisfies_def no_filters_def if_supplied_def
        if_present_def get_or_def tile_def lower_def lower_char_def)
  from get_materials_beyond_last_page [of 4 20 no_filters catalog_45] v(1) ce a(1)
  have "get_materials catalog_45 4 20 no_filters =
     Inr \<lparr>total = 45, page = 4, per_page = 20, total_pages = 3, products = [],
          filters_applied = no_filters\<rparr>"
    by (simp add: matching_catalog_45)
  moreover from get_materials_beyond_last_page [of 1 20 ?wc catalog_45] v(2) a(2)
  have "get_materials catalog_45 1 20 ?wc =
     Inr \<lparr>total = 0, page = 1, per_page = 20, total_pages = 0, products = [],
          filters_applied = ?wc\<rparr>"
    by (simp add: m)
  ultimately show ?thesis
    by blast
qed

section \<open>Properties of saving and loading\<close>







section \<open>Aggregation\<close>

text \<open>
  The response models of the aggregation endpoints. A count is a Python integer; the
  \<open>price_range\<close> dictionary is the pair of its \<open>min\<close> and \<open>max\<close> entries; a list made from a
  Python set has no order of its own and is modelled as a set.
\<close>

record CategoryResponse =
  name :: string
  product_count :: int
  average_price :: real
  price_range :: "real \<times> real"
  suppliers :: "string set"

record SupplierResponse =
  name :: string
  product_count :: int
  categories :: "string set"
  average_price :: real
  last_updated :: string

record StatsResponse =
  total_products :: int
  total_suppliers :: int
  total_categories :: int
  average_price :: real
  price_range :: "real \<times> real"
  last_updated :: string





















section \<open>Properties of the aggregation\<close>




























end
